theory Spec2Isabelle
  imports Main "HOL-Library.Sublist" "HOL-Library.AList"
begin

section \<open>Values, errors and the client object\<close>

text \<open>
  The module \<^verbatim>\<open>fxa/oauth.py\<close> is a thin OAuth client: every method builds a request,
  hands it to the transport object \<^verbatim>\<open>self.apiclient\<close> and validates the parsed JSON
  answer. Python values that travel in requests and responses are JSON values.
  Strings are byte strings: a Python 3 \<^verbatim>\<open>str\<close> is read through its UTF-8 encoding.
\<close>

datatype json =
    JNull
  | JBool bool
  | JNum int
  | JStr string
  | JArr "json list"
  | JObj "(string \<times> json) list"

text \<open>A parsed response, and a request body, is a Python dict with string keys.\<close>

type_synonym json_object = "string \<rightharpoonup> json"

text \<open>
  Exceptions are values. \<open>OutOfProtocolError\<close> and \<open>ScopeMismatchError\<close> are the two
  classes the module imports from \<^verbatim>\<open>fxa.errors\<close>; \<open>ClientError\<close> is what the transport
  raises for a refused request (docstring of \<^verbatim>\<open>verify_token\<close>); the others are Python's
  built-in exceptions that the code of this module can meet.
\<close>

datatype error =
    OutOfProtocolError string
  | ScopeMismatchError json json
  | ClientError string
  | KeyError string
  | IndexError
  | ValueError string
  | AttributeError string

text \<open>
  The transport adapter \<^verbatim>\<open>APIClient\<close> lives in \<^verbatim>\<open>fxa/_utils.py\<close>, outside this module;
  the client only reads its \<^verbatim>\<open>server_url\<close> and calls its \<^verbatim>\<open>post(url, body)\<close>. It is a
  parameter of the model: \<open>post\<close> sees and changes the outside world \<open>'w\<close> (the server,
  the network) and either raises or returns the parsed JSON object.
\<close>

record 'w APIClient =
  server_url :: string
  post :: "string \<Rightarrow> json_object \<Rightarrow> 'w \<Rightarrow> (error + json_object) \<times> 'w"

record 'w Client =
  client_id :: "string option"
  client_secret :: "string option"
  apiclient :: "'w APIClient"

text \<open>
  A method call runs on the object \<open>self\<close> and on the world; it returns a value or raises,
  and leaves both behind. Python lets a method assign to the fields of \<open>self\<close>, so
  \<open>self\<close> is part of the state that a call returns.
\<close>

record 'w state =
  self :: "'w Client"
  world :: "'w"

type_synonym ('w, 'a) call = "'w state \<Rightarrow> (error + 'a) \<times> 'w state"

text \<open>\<^verbatim>\<open>DEFAULT_SERVER_URL\<close> and \<^verbatim>\<open>Client.__init__\<close>. The third argument of the constructor
  is absent, a URL, or a ready transport object; \<open>new_APIClient\<close> stands for the absent
  constructor \<^verbatim>\<open>APIClient(server_url)\<close>.\<close>

definition DEFAULT_SERVER_URL :: string where
  "DEFAULT_SERVER_URL = ''https://oauth.accounts.firefox.com''"

datatype 'w server_arg = NoServer | ServerUrl string | ServerObject "'w APIClient"

definition init ::
  "(string \<Rightarrow> 'w APIClient) \<Rightarrow> string option \<Rightarrow> string option \<Rightarrow> 'w server_arg \<Rightarrow> 'w Client" where
  "init new_APIClient cid csecret server =
     \<lparr> client_id = cid,
       client_secret = csecret,
       apiclient =
         (case server of
            NoServer \<Rightarrow> new_APIClient DEFAULT_SERVER_URL
          | ServerUrl u \<Rightarrow> new_APIClient u
          | ServerObject a \<Rightarrow> a) \<rparr>"


text \<open>\<^verbatim>\<open>self.apiclient.post(url, body)\<close>: the one place where a request leaves the client.\<close>

definition api_post :: "string \<Rightarrow> json_object \<Rightarrow> ('w, json_object) call" where
  "api_post url body s =
     (case post (apiclient (self s)) url body (world s) of
        (r, w') \<Rightarrow> (r, s\<lparr>world := w'\<rparr>))"

text \<open>\<^verbatim>\<open>if x is None: x = self.x\<close>, the defaulting of a per-call override.\<close>

definition resolve :: "'a option \<Rightarrow> 'a option \<Rightarrow> 'a option" where
  "resolve arg configured = (if arg = None then configured else arg)"

text \<open>A possibly-\<^verbatim>\<open>None\<close> string as it is serialised in a JSON body.\<close>

definition opt_json :: "string option \<Rightarrow> json" where
  "opt_json v = (case v of None \<Rightarrow> JNull | Some x \<Rightarrow> JStr x)"

section \<open>String helpers\<close>

text \<open>\<^verbatim>\<open>sep.join(xs)\<close>.\<close>

fun join :: "string \<Rightarrow> string list \<Rightarrow> string" where
  "join sep [] = []"
| "join sep [x] = x"
| "join sep (x # y # ys) = x @ sep @ join sep (y # ys)"

text \<open>\<^verbatim>\<open>s.split(c)\<close> for a one-character separator: never empty, keeps empty pieces.\<close>

fun split_on :: "char \<Rightarrow> string \<Rightarrow> string list" where
  "split_on c [] = [[]]"
| "split_on c (x # xs) =
     (if x = c then [] # split_on c xs
      else (case split_on c xs of [] \<Rightarrow> [[x]] | y # ys \<Rightarrow> (x # y) # ys))"

text \<open>\<^verbatim>\<open>s.split(c, 1)\<close> read as a pair: the text before the first \<open>c\<close> and the text after
  it (empty when there is no \<open>c\<close>).\<close>

definition cut :: "char \<Rightarrow> string \<Rightarrow> string \<times> string" where
  "cut c s = (takeWhile (\<lambda>x. x \<noteq> c) s, drop 1 (dropWhile (\<lambda>x. x \<noteq> c) s))"

text \<open>\<^verbatim>\<open>s.replace(a, b)\<close> for one-character strings.\<close>

definition replace_char :: "char \<Rightarrow> char \<Rightarrow> string \<Rightarrow> string" where
  "replace_char a b s = map (\<lambda>x. if x = a then b else x) s"

definition ascii_alpha :: "char \<Rightarrow> bool" where
  "ascii_alpha c = (let n = (of_char c :: nat) in (65 \<le> n \<and> n \<le> 90) \<or> (97 \<le> n \<and> n \<le> 122))"

definition ascii_digit :: "char \<Rightarrow> bool" where
  "ascii_digit c = (let n = (of_char c :: nat) in 48 \<le> n \<and> n \<le> 57)"

definition ascii_lower :: "char \<Rightarrow> char" where
  "ascii_lower c = (let n = (of_char c :: nat) in if 65 \<le> n \<and> n \<le> 90 then char_of (n + 32) else c)"

text \<open>\<^verbatim>\<open>str.isspace\<close> on ASCII, and \<^verbatim>\<open>s.split()\<close>: the maximal runs of non-blank characters.
  \<open>cur\<close> is the run being read, last character first.\<close>

definition isspace :: "char \<Rightarrow> bool" where
  "isspace c = (c \<in> set [CHR '' '', CHR 0x09, CHR 0x0A, CHR 0x0B, CHR 0x0C, CHR 0x0D])"

fun ws_split :: "string \<Rightarrow> string \<Rightarrow> string list" where
  "ws_split cur [] = (if cur = [] then [] else [rev cur])"
| "ws_split cur (c # cs) =
     (if isspace c then (if cur = [] then ws_split [] cs else rev cur # ws_split [] cs)
      else ws_split (c # cur) cs)"

section \<open>The standard library: \<^verbatim>\<open>urllib.parse\<close>\<close>

text \<open>
  The module calls \<^verbatim>\<open>urlparse\<close>, \<^verbatim>\<open>urlunparse\<close>, \<^verbatim>\<open>urlencode\<close> and \<^verbatim>\<open>parse_qs\<close> of Python's
  standard library. They are modelled after CPython 3.12 (\<^verbatim>\<open>Lib/urllib/parse.py\<close>), on byte
  strings. Two things of that file are left out, and said here: the later validations of
  a bracketed or non-ASCII network location (\<^verbatim>\<open>_check_bracketed_netloc\<close>, \<^verbatim>\<open>_checknetloc\<close>),
  which raise \<^verbatim>\<open>ValueError\<close> on more inputs than the bracket test below; and the UTF-8
  decoding of \<^verbatim>\<open>unquote\<close>, which puts U+FFFD where the decoded bytes are not UTF-8.
\<close>

subsection \<open>Percent-encoding\<close>


definition hexval :: "char \<Rightarrow> nat option" where
  "hexval c =
     (let n = (of_char c :: nat) in
      if 48 \<le> n \<and> n \<le> 57 then Some (n - 48)
      else if 65 \<le> n \<and> n \<le> 70 then Some (n - 55)
      else if 97 \<le> n \<and> n \<le> 102 then Some (n - 87)
      else None)"




text \<open>\<^verbatim>\<open>unquote(s)\<close>: a \<^verbatim>\<open>%\<close> followed by two hexadecimal digits (either case) is the byte
  they name; any other \<^verbatim>\<open>%\<close> stays.\<close>

fun unquote :: "string \<Rightarrow> string" where
  "unquote [] = []"
| "unquote (c # cs) =
     (if c = CHR ''%'' then
        (case cs of
           h # l # rest \<Rightarrow>
             (case (hexval h, hexval l) of
                (Some a, Some b) \<Rightarrow> char_of (16 * a + b) # unquote rest
              | _ \<Rightarrow> c # unquote cs)
         | _ \<Rightarrow> c # unquote cs)
      else c # unquote cs)"



subsection \<open>Query strings\<close>

text \<open>\<^verbatim>\<open>parse_qsl(qs)\<close> with its defaults (no blank values, no strict parsing, separator
  \<^verbatim>\<open>&\<close>): one field at a time.\<close>

definition parse_field :: "string \<Rightarrow> (string \<times> string) list" where
  "parse_field name_value =
     (if name_value = [] then []
      else if CHR ''='' \<notin> set name_value then []
      else (case cut CHR ''='' name_value of
              (n, v) \<Rightarrow>
                if v \<noteq> [] then
                  [(unquote (replace_char CHR ''+'' CHR '' '' n),
                    unquote (replace_char CHR ''+'' CHR '' '' v))]
                else []))"

definition parse_qsl :: "string \<Rightarrow> (string \<times> string) list" where
  "parse_qsl qs = concat (map parse_field (split_on CHR ''&'' qs))"

text \<open>\<^verbatim>\<open>parse_qs(qs)\<close>: the dict from each name to the list of its values, in order of
  appearance. \<^verbatim>\<open>AList.update\<close> stores under a present key in place and appends an absent
  key, as assignment to a Python dict does.\<close>

definition parse_qs_add :: "(string \<times> string list) list \<Rightarrow> string \<times> string \<Rightarrow> (string \<times> string list) list" where
  "parse_qs_add parsed_result nv =
     (case nv of (name, val) \<Rightarrow>
        (case map_of parsed_result name of
           Some vs \<Rightarrow> AList.update name (vs @ [val]) parsed_result
         | None \<Rightarrow> AList.update name [val] parsed_result))"

definition parse_qs :: "string \<Rightarrow> (string \<times> string list) list" where
  "parse_qs qs = foldl parse_qs_add [] (parse_qsl qs)"

subsection \<open>Splitting and joining URLs\<close>

record SplitResult =
  scheme :: string
  netloc :: string
  path :: string
  query :: string
  fragment :: string

record ParseResult = SplitResult +
  params :: string

definition scheme_char :: "char \<Rightarrow> bool" where
  "scheme_char c = (ascii_alpha c \<or> ascii_digit c \<or> c \<in> set ''+-.'')"


definition uses_params :: "string list" where
  "uses_params = ['''', ''ftp'', ''hdl'', ''prospero'', ''http'', ''imap'', ''https'', ''shttp'',
     ''rtsp'', ''rtsps'', ''rtspu'', ''sip'', ''sips'', ''mms'', ''sftp'', ''tel'']"

text \<open>The head of \<^verbatim>\<open>urlsplit\<close>: leading C0 controls and spaces are stripped, then tabs and line
  breaks are removed everywhere.\<close>

definition clean_url :: "string \<Rightarrow> string" where
  "clean_url url =
     filter (\<lambda>c. c \<notin> set [CHR 0x09, CHR 0x0D, CHR 0x0A])
       (dropWhile (\<lambda>c. (of_char c :: nat) \<le> 32) url)"

text \<open>The scheme: the text before the first \<^verbatim>\<open>:\<close>, when it is not empty, starts with an ASCII
  letter and has scheme characters only; it is returned in lower case with the rest.\<close>

definition split_scheme :: "string \<Rightarrow> string \<times> string" where
  "split_scheme url =
     (let pre = takeWhile (\<lambda>c. c \<noteq> CHR '':'') url in
      if CHR '':'' \<in> set url \<and> pre \<noteq> [] \<and> ascii_alpha (hd url) \<and> list_all scheme_char pre
      then (map ascii_lower pre, drop (length pre + 1) url)
      else ([], url))"

text \<open>\<^verbatim>\<open>_splitnetloc(url, 2)\<close>: after the two slashes, up to the first of \<^verbatim>\<open>/?#\<close>.\<close>

definition splitnetloc :: "string \<Rightarrow> string \<times> string" where
  "splitnetloc url =
     (takeWhile (\<lambda>c. c \<notin> set ''/?#'') (drop 2 url),
      dropWhile (\<lambda>c. c \<notin> set ''/?#'') (drop 2 url))"

definition bad_brackets :: "string \<Rightarrow> bool" where
  "bad_brackets nl =
     ((CHR ''['' \<in> set nl \<and> CHR '']'' \<notin> set nl) \<or> (CHR '']'' \<in> set nl \<and> CHR ''['' \<notin> set nl))"

definition urlsplit :: "string \<Rightarrow> error + SplitResult" where
  "urlsplit url0 =
     (case split_scheme (clean_url url0) of
        (sch, url1) \<Rightarrow>
          (case (if take 2 url1 = ''//'' then splitnetloc url1 else ([], url1)) of
             (nl, url2) \<Rightarrow>
               if bad_brackets nl then Inl (ValueError ''Invalid IPv6 URL'')
               else
                 (case cut CHR ''#'' url2 of
                    (url3, frag) \<Rightarrow>
                      (case cut CHR ''?'' url3 of
                         (url4, q) \<Rightarrow>
                           Inr \<lparr> scheme = sch, netloc = nl, path = url4, query = q,
                                 fragment = frag \<rparr>))))"

text \<open>\<^verbatim>\<open>_splitparams(url)\<close>, called only on a path that holds a \<^verbatim>\<open>;\<close>: the parameters start at
  the first \<^verbatim>\<open>;\<close> of the last path segment.\<close>

definition splitparams :: "string \<Rightarrow> string \<times> string" where
  "splitparams url =
     (if CHR ''/'' \<in> set url then
        (let k = length url - length (takeWhile (\<lambda>c. c \<noteq> CHR ''/'') (rev url)) - 1;
             seg = drop k url
         in if CHR '';'' \<notin> set seg then (url, [])
            else (take k url @ fst (cut CHR '';'' seg), snd (cut CHR '';'' seg)))
      else cut CHR '';'' url)"

definition urlparse :: "string \<Rightarrow> error + ParseResult" where
  "urlparse url =
     (case urlsplit url of
        Inl e \<Rightarrow> Inl e
      | Inr r \<Rightarrow>
          (case (if scheme r \<in> set uses_params \<and> CHR '';'' \<in> set (path r)
                 then splitparams (path r) else (path r, [])) of
             (p, ps) \<Rightarrow>
               Inr \<lparr> scheme = scheme r, netloc = netloc r, path = p, query = query r,
                     fragment = fragment r, params = ps \<rparr>))"



section \<open>Code exchange\<close>

text \<open>\<^verbatim>\<open>Client.trade_code(code, client_id=None, client_secret=None)\<close>.\<close>

definition trade_code_body :: "string \<Rightarrow> string option \<Rightarrow> string option \<Rightarrow> 'w Client \<Rightarrow> json_object" where
  "trade_code_body code cid csecret c =
     [''code'' \<mapsto> JStr code,
      ''client_id'' \<mapsto> opt_json (resolve cid (client_id c)),
      ''client_secret'' \<mapsto> opt_json (resolve csecret (client_secret c))]"

definition trade_code :: "string \<Rightarrow> string option \<Rightarrow> string option \<Rightarrow> ('w, json) call" where
  "trade_code code cid csecret s =
     (case api_post ''/v1/token'' (trade_code_body code cid csecret (self s)) s of
        (Inl e, s') \<Rightarrow> (Inl e, s')
      | (Inr resp, s') \<Rightarrow>
          (case resp ''access_token'' of
             None \<Rightarrow> (Inl (OutOfProtocolError ''access_token missing in OAuth response''), s')
           | Some tok \<Rightarrow> (Inr tok, s')))"

section \<open>Assertion exchange\<close>

text \<open>The body shared by \<^verbatim>\<open>authorize_code\<close> and \<^verbatim>\<open>authorize_token\<close>; a \<open>scope\<close> argument is any
  Python value, \<open>JNull\<close> being \<^verbatim>\<open>None\<close>.\<close>

definition authorize_code_body :: "string \<Rightarrow> json \<Rightarrow> string option \<Rightarrow> 'w Client \<Rightarrow> json_object" where
  "authorize_code_body assertion scope cid c =
     (let body = [''client_id'' \<mapsto> opt_json (resolve cid (client_id c)),
                  ''assertion'' \<mapsto> JStr assertion,
                  ''state'' \<mapsto> JStr ''x'']
      in if scope \<noteq> JNull then body(''scope'' \<mapsto> scope) else body)"

definition authorize_token_body :: "string \<Rightarrow> json \<Rightarrow> string option \<Rightarrow> 'w Client \<Rightarrow> json_object" where
  "authorize_token_body assertion scope cid c =
     (let body = [''client_id'' \<mapsto> opt_json (resolve cid (client_id c)),
                  ''assertion'' \<mapsto> JStr assertion,
                  ''response_type'' \<mapsto> JStr ''token'',
                  ''state'' \<mapsto> JStr ''x'']
      in if scope \<noteq> JNull then body(''scope'' \<mapsto> scope) else body)"

text \<open>Python's truth value of a JSON value.\<close>

fun truthy :: "json \<Rightarrow> bool" where
  "truthy JNull = False"
| "truthy (JBool b) = b"
| "truthy (JNum n) = (n \<noteq> 0)"
| "truthy (JStr s) = (s \<noteq> [])"
| "truthy (JArr xs) = (xs \<noteq> [])"
| "truthy (JObj kvs) = (kvs \<noteq> [])"

text \<open>\<^verbatim>\<open>parse_qs(urlparse(resp["redirect"]).query)\<close>. On a value that is not a string,
  \<^verbatim>\<open>urlparse\<close> first calls \<^verbatim>\<open>_coerce_args\<close>: a false value is read as the empty URL, any other
  value has no \<^verbatim>\<open>decode\<close> and raises \<^verbatim>\<open>AttributeError\<close>.\<close>

definition redirect_query_params :: "json \<Rightarrow> error + (string \<times> string list) list" where
  "redirect_query_params redirect =
     (case redirect of
        JStr u \<Rightarrow> (case urlparse u of Inl e \<Rightarrow> Inl e | Inr p \<Rightarrow> Inr (parse_qs (query p)))
      | v \<Rightarrow> if truthy v then Inl (AttributeError ''decode'') else Inr (parse_qs []))"

text \<open>\<^verbatim>\<open>d[k]\<close> on a dict and \<^verbatim>\<open>xs[0]\<close> on a list.\<close>

definition dict_getitem :: "(string \<times> 'v) list \<Rightarrow> string \<Rightarrow> error + 'v" where
  "dict_getitem d k = (case map_of d k of None \<Rightarrow> Inl (KeyError k) | Some v \<Rightarrow> Inr v)"

definition list_first :: "'a list \<Rightarrow> error + 'a" where
  "list_first xs = (case xs of [] \<Rightarrow> Inl IndexError | x # _ \<Rightarrow> Inr x)"

text \<open>The \<^verbatim>\<open>try\<close> block of \<^verbatim>\<open>authorize_code\<close>: \<^verbatim>\<open>query_params["code"][0]\<close> under
  \<^verbatim>\<open>except (KeyError, IndexError, ValueError)\<close>.\<close>

definition code_of_params :: "(string \<times> string list) list \<Rightarrow> error + string" where
  "code_of_params query_params =
     (case (case dict_getitem query_params ''code'' of Inl e \<Rightarrow> Inl e | Inr vs \<Rightarrow> list_first vs) of
        Inr code \<Rightarrow> Inr code
      | Inl (KeyError _) \<Rightarrow> Inl (OutOfProtocolError ''code missing in OAuth redirect url'')
      | Inl IndexError \<Rightarrow> Inl (OutOfProtocolError ''code missing in OAuth redirect url'')
      | Inl (ValueError _) \<Rightarrow> Inl (OutOfProtocolError ''code missing in OAuth redirect url'')
      | Inl e \<Rightarrow> Inl e)"

text \<open>\<^verbatim>\<open>Client.authorize_code(assertion, scope=None, client_id=None)\<close>.\<close>

definition authorize_code :: "string \<Rightarrow> json \<Rightarrow> string option \<Rightarrow> ('w, string) call" where
  "authorize_code assertion scope cid s =
     (case api_post ''/v1/authorization'' (authorize_code_body assertion scope cid (self s)) s of
        (Inl e, s') \<Rightarrow> (Inl e, s')
      | (Inr resp, s') \<Rightarrow>
          (case resp ''redirect'' of
             None \<Rightarrow> (Inl (OutOfProtocolError ''redirect missing in OAuth response''), s')
           | Some redirect \<Rightarrow>
               (case redirect_query_params redirect of
                  Inl e \<Rightarrow> (Inl e, s')
                | Inr query_params \<Rightarrow> (code_of_params query_params, s'))))"

text \<open>\<^verbatim>\<open>Client.authorize_token(assertion, scope=None, client_id=None)\<close>.\<close>

definition authorize_token :: "string \<Rightarrow> json \<Rightarrow> string option \<Rightarrow> ('w, json) call" where
  "authorize_token assertion scope cid s =
     (case api_post ''/v1/authorization'' (authorize_token_body assertion scope cid (self s)) s of
        (Inl e, s') \<Rightarrow> (Inl e, s')
      | (Inr resp, s') \<Rightarrow>
          (case resp ''access_token'' of
             None \<Rightarrow> (Inl (OutOfProtocolError ''access_token missing in OAuth response''), s')
           | Some tok \<Rightarrow> (Inr tok, s')))"

section \<open>The redirect URL\<close>





text \<open>The query component of a URL, read off its text: what stands after the first \<^verbatim>\<open>?\<close> of
  the part before the first \<^verbatim>\<open>#\<close>.\<close>

definition url_query :: "string \<Rightarrow> string" where
  "url_query url = snd (cut CHR ''?'' (fst (cut CHR ''#'' url)))"

section \<open>The scope matcher\<close>

text \<open>
  Modelled from the spec: \<^verbatim>\<open>scope_matches\<close> is imported from \<^verbatim>\<open>fxa/_utils.py\<close>, which is not
  among the sources. The specification (section 4.2 and the glossary) gives it as: both
  arguments are whitespace-separated strings or sequences of tokens and are normalised
  to sets of tokens, a malformed or empty input being the empty set; a granted token
  satisfies a requested one when the requested one equals it or extends it with further
  \<^verbatim>\<open>/\<close>-delimited segments; every requested token must be satisfied by some granted one.
\<close>

fun scope_items :: "json list \<Rightarrow> string list option" where
  "scope_items [] = Some []"
| "scope_items (JStr t # xs) = map_option ((#) t) (scope_items xs)"
| "scope_items (_ # xs) = None"

fun scope_tokens :: "json \<Rightarrow> string list" where
  "scope_tokens (JStr s) = ws_split [] s"
| "scope_tokens (JArr xs) = (case scope_items xs of Some ts \<Rightarrow> ts | None \<Rightarrow> [])"
| "scope_tokens _ = []"

definition scope_covers :: "string \<Rightarrow> string \<Rightarrow> bool" where
  "scope_covers granted requested =
     prefix (split_on CHR ''/'' granted) (split_on CHR ''/'' requested)"

definition scope_matches :: "json \<Rightarrow> json \<Rightarrow> bool" where
  "scope_matches granted requested =
     list_all (\<lambda>r. list_ex (\<lambda>g. scope_covers g r) (scope_tokens granted)) (scope_tokens requested)"

section \<open>Token verification\<close>

text \<open>\<^verbatim>\<open>", ".join([k for k in ('user', 'scope', 'client_id') if k not in resp])\<close>.\<close>

definition missing_keys :: "json_object \<Rightarrow> string list" where
  "missing_keys resp = filter (\<lambda>k. resp k = None) [''user'', ''scope'', ''client_id'']"

definition missing_attrs :: "json_object \<Rightarrow> string" where
  "missing_attrs resp = join '', '' (missing_keys resp)"

text \<open>\<^verbatim>\<open>Client.verify_token(token, scope=None)\<close>. \<^verbatim>\<open>resp['scope']\<close> is read after the check of
  the three keys; the \<open>KeyError\<close> branch is what Python would do were the key absent.\<close>

definition verify_token :: "string \<Rightarrow> json \<Rightarrow> ('w, json_object) call" where
  "verify_token token scope s =
     (case api_post ''/v1/verify'' [''token'' \<mapsto> JStr token] s of
        (Inl e, s') \<Rightarrow> (Inl e, s')
      | (Inr resp, s') \<Rightarrow>
          if missing_attrs resp \<noteq> [] then
            (Inl (OutOfProtocolError (missing_attrs resp @ '' missing in OAuth response'')), s')
          else if scope \<noteq> JNull then
            (case resp ''scope'' of
               None \<Rightarrow> (Inl (KeyError ''scope''), s')
             | Some authorized_scope \<Rightarrow>
                 if \<not> scope_matches authorized_scope scope
                 then (Inl (ScopeMismatchError authorized_scope scope), s')
                 else (Inr resp, s'))
          else (Inr resp, s'))"

section \<open>A transport for the examples\<close>

text \<open>The examples below run the client on a transport that answers every request with
  one fixed object and writes the request (URL and body) at the end of the world, which
  is the list of the requests sent so far.\<close>

type_synonym wire = "(string \<times> json_object) list"

definition answering :: "string \<Rightarrow> json_object \<Rightarrow> wire APIClient" where
  "answering url reply = \<lparr> server_url = url, post = (\<lambda>u body w. (Inr reply, w @ [(u, body)])) \<rparr>"

definition client_state :: "string option \<Rightarrow> string option \<Rightarrow> wire APIClient \<Rightarrow> wire state" where
  "client_state cid csecret a =
     \<lparr> self = \<lparr> client_id = cid, client_secret = csecret, apiclient = a \<rparr>, world = [] \<rparr>"

section \<open>Theorems\<close>

subsection \<open>Facts about the helpers\<close>

lemma join_eq_Nil_iff: "join sep xs = [] \<longleftrightarrow> (xs = [] \<or> (sep = [] \<and> (\<forall>x\<in>set xs. x = [])) \<or> xs = [[]])"
  by (induction sep xs rule: join.induct) auto

lemma split_on_not_Nil [simp]: "split_on c s \<noteq> []"
  by (induction s) (auto split: list.splits)

lemma prefix_split_on:
  "prefix (split_on c a) (split_on c b) \<longleftrightarrow> (b = a \<or> (\<exists>rest. b = a @ c # rest))"
proof (induction a arbitrary: b)
  case Nil
  show ?case
    by (cases b) (auto split: list.splits)
next
  case (Cons x a)
  show ?case
  proof (cases b)
    case Nil
    then show ?thesis by (auto split: list.splits)
  next
    case (Cons y b')
    show ?thesis
      using Cons.IH [of b'] Cons
      apply (cases "split_on c a"; cases "split_on c b'")
      apply (auto split: list.splits if_splits)
      done
  qed
qed

subsection \<open>The scope matcher\<close>

text \<open>
  C1. \<open>scope_matches granted requested\<close> holds exactly when every requested token has a
  granted token that equals it or is an ancestor of it, that is, the requested token is
  the granted one followed by \<^verbatim>\<open>/\<close> and more text. The four examples of the specification
  come out as stated.
\<close>

theorem scope_matches_spec:
  "(scope_matches granted requested \<longleftrightarrow>
      (\<forall>r \<in> set (scope_tokens requested). \<exists>g \<in> set (scope_tokens granted).
          g = r \<or> (\<exists>rest. r = g @ ''/'' @ rest)))
   \<and> scope_matches (JStr ''profile email'') (JStr ''profile'')
   \<and> \<not> scope_matches (JStr ''profile/email'') (JStr ''profile'')
   \<and> \<not> scope_matches (JStr '''') (JStr ''profile'')
   \<and> scope_matches (JStr ''profile'') (JStr '''')"
proof -
  have "scope_covers g r \<longleftrightarrow> (g = r \<or> (\<exists>rest. r = g @ ''/'' @ rest))" for g r
    by (auto simp: scope_covers_def prefix_split_on)
  then have general: "scope_matches granted requested \<longleftrightarrow>
      (\<forall>r \<in> set (scope_tokens requested). \<exists>g \<in> set (scope_tokens granted).
          g = r \<or> (\<exists>rest. r = g @ ''/'' @ rest))"
    by (simp add: scope_matches_def list_all_iff list_ex_iff)
  have e1: "scope_matches (JStr ''profile email'') (JStr ''profile'')"
    by (simp add: scope_matches_def scope_covers_def isspace_def)
  have e2: "\<not> scope_matches (JStr ''profile/email'') (JStr ''profile'')"
    by (simp add: scope_matches_def scope_covers_def isspace_def)
  have e3: "\<not> scope_matches (JStr '''') (JStr ''profile'')"
    by (simp add: scope_matches_def scope_covers_def isspace_def)
  have e4: "scope_matches (JStr ''profile'') (JStr '''')"
    by (simp add: scope_matches_def scope_covers_def isspace_def)
  from general e1 e2 e3 e4 show ?thesis by blast
qed

theorem scope_matches_spec_witness:
  "scope_matches (JArr [JStr ''profile'', JStr ''openid'']) (JStr ''profile/email openid'')
   \<and> \<not> scope_matches (JStr ''profile/email'') (JStr ''profile/emails'')"
  using scope_matches_spec [of "JArr [JStr ''profile'', JStr ''openid'']" "JStr ''profile/email openid''"]
        scope_matches_spec [of "JStr ''profile/email''" "JStr ''profile/emails''"]
  by (simp add: isspace_def)


subsection \<open>Code exchange\<close>

text \<open>
  C4. Whatever object the transport returns for the token-exchange request,
  \<open>trade_code\<close> returns the value stored under \<open>access_token\<close>, as it is, when the key is
  present, and raises \<open>OutOfProtocolError\<close> when it is absent (the empty response
  included).
\<close>

theorem trade_code_access_token:
  assumes "api_post ''/v1/token'' (trade_code_body code cid csecret (self s)) s = (Inr resp, s')"
  shows "trade_code code cid csecret s =
           (case resp ''access_token'' of
              Some tok \<Rightarrow> (Inr tok, s')
            | None \<Rightarrow> (Inl (OutOfProtocolError ''access_token missing in OAuth response''), s'))"
  using assms by (simp add: trade_code_def split: option.split)

theorem trade_code_access_token_witness:
  "fst (trade_code ''c0de'' None None
          (client_state (Some ''id'') (Some ''secret'')
             (answering ''https://s'' [''access_token'' \<mapsto> JStr ''tok''])))
     = Inr (JStr ''tok'')
   \<and> fst (trade_code ''c0de'' None None
          (client_state (Some ''id'') (Some ''secret'') (answering ''https://s'' Map.empty)))
     = Inl (OutOfProtocolError ''access_token missing in OAuth response'')"
proof -
  let ?s = "\<lambda>r. client_state (Some ''id'') (Some ''secret'') (answering ''https://s'' r)"
  let ?body = "\<lambda>r. trade_code_body ''c0de'' None None (self (?s r))"
  have a: "api_post ''/v1/token'' (?body r) (?s r)
             = (Inr r, (?s r) \<lparr> world := [(''/v1/token'', ?body r)] \<rparr>)" for r
    by (simp add: api_post_def client_state_def answering_def)
  show ?thesis
    using trade_code_access_token [OF a [of "[''access_token'' \<mapsto> JStr ''tok'']"]]
          trade_code_access_token [OF a [of Map.empty]]
    by simp
qed

subsection \<open>Token verification\<close>

lemma missing_attrs_Nil_iff: "missing_attrs resp = [] \<longleftrightarrow> missing_keys resp = []"
  by (auto simp: missing_attrs_def missing_keys_def join_eq_Nil_iff)

lemma missing_keys_Nil_iff:
  "missing_keys resp = [] \<longleftrightarrow> (resp ''user'' \<noteq> None \<and> resp ''scope'' \<noteq> None \<and> resp ''client_id'' \<noteq> None)"
  by (auto simp: missing_keys_def)

lemma api_post_self: "api_post url body s = (r, s') \<Longrightarrow> self s' = self s"
  by (auto simp: api_post_def split: prod.splits)

lemma verify_token_self: "verify_token token scope s = (r, s') \<Longrightarrow> self s' = self s"
  by (auto simp: verify_token_def split: prod.splits sum.splits option.splits if_splits
           dest: api_post_self)

text \<open>What \<open>verify_token\<close> makes of the transport's answer.\<close>

lemma verify_token_fst:
  "fst (verify_token token scope s) =
     (case fst (post (apiclient (self s)) ''/v1/verify'' [''token'' \<mapsto> JStr token] (world s)) of
        Inl e \<Rightarrow> Inl e
      | Inr resp \<Rightarrow>
          if missing_attrs resp \<noteq> [] then
            Inl (OutOfProtocolError (missing_attrs resp @ '' missing in OAuth response''))
          else if scope \<noteq> JNull then
            (case resp ''scope'' of
               None \<Rightarrow> Inl (KeyError ''scope'')
             | Some authorized_scope \<Rightarrow>
                 if \<not> scope_matches authorized_scope scope
                 then Inl (ScopeMismatchError authorized_scope scope)
                 else Inr resp)
          else Inr resp)"
  by (simp add: verify_token_def api_post_def split: prod.splits sum.splits option.splits)



text \<open>
  C2. When the response has the three keys and a scope argument other than \<^verbatim>\<open>None\<close> is
  given, \<open>verify_token\<close> returns the whole response if the granted scope satisfies the
  requested one by the scope matcher, and otherwise raises \<open>ScopeMismatchError\<close> with the
  granted and the requested scope.
\<close>

theorem verify_token_scope_check:
  assumes "api_post ''/v1/verify'' [''token'' \<mapsto> JStr token] s = (Inr resp, s')"
    and "resp ''user'' = Some u" and "resp ''scope'' = Some granted" and "resp ''client_id'' = Some cl"
    and "scope \<noteq> JNull"
  shows "verify_token token scope s =
           (if scope_matches granted scope then (Inr resp, s')
            else (Inl (ScopeMismatchError granted scope), s'))"
proof -
  from assms(2-4) have "missing_keys resp = []"
    by (simp add: missing_keys_Nil_iff)
  then have "missing_attrs resp = []"
    by (simp add: missing_attrs_Nil_iff)
  with assms show ?thesis
    by (simp add: verify_token_def)
qed

theorem verify_token_scope_check_witness:
  "fst (verify_token ''tok'' (JStr ''profile/email'')
     (client_state (Some ''id'') None
        (answering ''https://s''
           [''user'' \<mapsto> JStr ''u'', ''scope'' \<mapsto> JStr ''profile'', ''client_id'' \<mapsto> JStr ''c''])))
   = Inr [''user'' \<mapsto> JStr ''u'', ''scope'' \<mapsto> JStr ''profile'', ''client_id'' \<mapsto> JStr ''c'']
   \<and>
   fst (verify_token ''tok'' (JStr ''profile/email'')
     (client_state (Some ''id'') None
        (answering ''https://s''
           [''user'' \<mapsto> JStr ''u'', ''scope'' \<mapsto> JStr ''display_name'', ''client_id'' \<mapsto> JStr ''c''])))
   = Inl (ScopeMismatchError (JStr ''display_name'') (JStr ''profile/email''))"
proof -
  let ?resp = "\<lambda>g. [''user'' \<mapsto> JStr ''u'', ''scope'' \<mapsto> JStr g, ''client_id'' \<mapsto> JStr ''c'']"
  let ?s = "\<lambda>g. client_state (Some ''id'') None (answering ''https://s'' (?resp g))"
  have a: "api_post ''/v1/verify'' [''token'' \<mapsto> JStr ''tok''] (?s g)
             = (Inr (?resp g), (?s g) \<lparr> world := [(''/v1/verify'', [''token'' \<mapsto> JStr ''tok''])] \<rparr>)" for g
    by (simp add: api_post_def client_state_def answering_def)
  have m1: "scope_matches (JStr ''profile'') (JStr ''profile/email'')"
    by (simp add: scope_matches_def scope_covers_def isspace_def)
  have m2: "\<not> scope_matches (JStr ''display_name'') (JStr ''profile/email'')"
    by (simp add: scope_matches_def scope_covers_def isspace_def)
  show ?thesis
    using verify_token_scope_check [OF a [of "''profile''"], of "JStr ''u''" "JStr ''profile''" "JStr ''c''" "JStr ''profile/email''"]
          verify_token_scope_check [OF a [of "''display_name''"], of "JStr ''u''" "JStr ''display_name''" "JStr ''c''" "JStr ''profile/email''"]
          m1 m2
    by simp
qed


text \<open>
  C9. Two calls of \<open>verify_token\<close> with the same arguments, the second on the state the
  first one left, give the same result when the transport answers the request alike in
  both worlds; and the client object is the same after each call as before.
\<close>

theorem verify_token_idempotent:
  assumes first: "verify_token token scope s = (r1, s1)"
    and second: "verify_token token scope s1 = (r2, s2)"
    and stable: "fst (post (apiclient (self s)) ''/v1/verify'' [''token'' \<mapsto> JStr token] (world s1))
               = fst (post (apiclient (self s)) ''/v1/verify'' [''token'' \<mapsto> JStr token] (world s))"
  shows "r2 = r1 \<and> self s1 = self s \<and> self s2 = self s"
proof -
  have s1: "self s1 = self s"
    using first by (rule verify_token_self)
  have s2: "self s2 = self s1"
    using second by (rule verify_token_self)
  have "r2 = fst (verify_token token scope s1)"
    using second by simp
  also have "\<dots> = fst (verify_token token scope s)"
    unfolding verify_token_fst s1 stable ..
  also have "\<dots> = r1"
    using first by simp
  finally show ?thesis
    using s1 s2 by simp
qed

theorem verify_token_idempotent_witness:
  "fst (verify_token ''tok'' (JStr ''profile'')
     (snd (verify_token ''tok'' (JStr ''profile'')
        (client_state (Some ''id'') None
           (answering ''https://s''
              [''user'' \<mapsto> JStr ''u'', ''scope'' \<mapsto> JStr ''profile'', ''client_id'' \<mapsto> JStr ''c''])))))
   = fst (verify_token ''tok'' (JStr ''profile'')
        (client_state (Some ''id'') None
           (answering ''https://s''
              [''user'' \<mapsto> JStr ''u'', ''scope'' \<mapsto> JStr ''profile'', ''client_id'' \<mapsto> JStr ''c''])))
   \<and>
   self (snd (verify_token ''tok'' (JStr ''profile'')
     (snd (verify_token ''tok'' (JStr ''profile'')
        (client_state (Some ''id'') None
           (answering ''https://s''
              [''user'' \<mapsto> JStr ''u'', ''scope'' \<mapsto> JStr ''profile'', ''client_id'' \<mapsto> JStr ''c'']))))))
   = self (client_state (Some ''id'') None
           (answering ''https://s''
              [''user'' \<mapsto> JStr ''u'', ''scope'' \<mapsto> JStr ''profile'', ''client_id'' \<mapsto> JStr ''c'']))"
proof -
  let ?s = "client_state (Some ''id'') None
           (answering ''https://s''
              [''user'' \<mapsto> JStr ''u'', ''scope'' \<mapsto> JStr ''profile'', ''client_id'' \<mapsto> JStr ''c''])"
  let ?v = "verify_token ''tok'' (JStr ''profile'')"
  have first: "?v ?s = (fst (?v ?s), snd (?v ?s))"
    by simp
  have second: "?v (snd (?v ?s)) = (fst (?v (snd (?v ?s))), snd (?v (snd (?v ?s))))"
    by simp
  have stable: "fst (post (apiclient (self ?s)) ''/v1/verify'' [''token'' \<mapsto> JStr ''tok''] (world (snd (?v ?s))))
              = fst (post (apiclient (self ?s)) ''/v1/verify'' [''token'' \<mapsto> JStr ''tok''] (world ?s))"
    by (simp add: client_state_def answering_def)
  show ?thesis
    using verify_token_idempotent [OF first second stable] by simp
qed

subsection \<open>Query strings and the evaluation of URLs\<close>

lemmas url_eval = urlparse_def urlsplit_def clean_url_def split_scheme_def splitnetloc_def bad_brackets_def cut_def
     ascii_alpha_def scheme_char_def ascii_digit_def ascii_lower_def Let_def uses_params_def
lemmas qs_eval = parse_qs_def parse_qsl_def parse_field_def cut_def replace_char_def parse_qs_add_def







subsection \<open>Assertion exchange\<close>



text \<open>The two examples of the specification: a redirect with a \<open>code\<close> parameter, and one
  without.\<close>

lemma authorize_code_examples:
  "fst (authorize_code ''assertion'' JNull None
     (client_state (Some ''id'') None
        (answering ''https://s'' [''redirect'' \<mapsto> JStr ''https://x/?code=abc123&state=x''])))
   = Inr ''abc123''"
  "fst (authorize_code ''assertion'' JNull None
     (client_state (Some ''id'') None
        (answering ''https://s'' [''redirect'' \<mapsto> JStr ''https://x/?state=x''])))
   = Inl (OutOfProtocolError ''code missing in OAuth redirect url'')"
  by (simp_all add: authorize_code_def api_post_def client_state_def answering_def
        redirect_query_params_def url_eval code_of_params_def dict_getitem_def list_first_def qs_eval)




text \<open>
  C5. The claim says that a redirect whose \<open>code\<close> parameter is missing or cannot be
  parsed gives \<open>OutOfProtocolError\<close>. The redirect below has no \<open>code\<close> parameter, yet the
  call ends in the \<open>ValueError\<close> of \<^verbatim>\<open>urlparse\<close>: the URL is parsed before the \<^verbatim>\<open>try\<close> block
  whose \<^verbatim>\<open>except\<close> clause names \<^verbatim>\<open>ValueError\<close>.
\<close>

theorem authorize_code_unparseable_redirect:
  "fst (authorize_code ''assertion'' JNull None
     (client_state (Some ''id'') None
        (answering ''https://s'' [''redirect'' \<mapsto> JStr ''https://[::1/?state=x''])))
   = Inl (ValueError ''Invalid IPv6 URL'')"
  by (simp add: authorize_code_def api_post_def client_state_def answering_def
        redirect_query_params_def url_eval)


subsection \<open>The parts of a URL\<close>







text \<open>characters of the parsed components\<close>

lemma scheme_char_not_delim: "scheme_char c \<Longrightarrow> c \<noteq> CHR ''?'' \<and> c \<noteq> CHR ''#''"
  by (auto simp: scheme_char_def ascii_alpha_def ascii_digit_def)














text \<open>The query that \<^verbatim>\<open>urlsplit\<close> returns is the query component of the cleaned text.\<close>

lemma cut_prefix: "c \<notin> set p \<Longrightarrow> cut c (p @ x) = (p @ fst (cut c x), snd (cut c x))"
  by (induction p) (auto simp: cut_def)

lemma url_query_prefix:
  assumes "CHR ''?'' \<notin> set p" and "CHR ''#'' \<notin> set p"
  shows "url_query (p @ x) = url_query x"
  by (simp add: url_query_def cut_prefix assms)

lemma split_scheme_prefix:
  assumes "split_scheme url = (sch, rest)"
  obtains p where "url = p @ rest" and "CHR ''?'' \<notin> set p" and "CHR ''#'' \<notin> set p"
proof (cases "sch = [] \<and> rest = url")
  case True
  then have "url = [] @ rest" by simp
  then show ?thesis using that by force
next
  case False
  let ?pre = "takeWhile (\<lambda>c. c \<noteq> CHR '':'') url"
  from False assms have colon: "CHR '':'' \<in> set url" and chars: "list_all scheme_char ?pre"
    and rest: "rest = drop (length ?pre + 1) url"
    by (auto simp: split_scheme_def Let_def split: if_splits)
  from colon have "dropWhile (\<lambda>c. c \<noteq> CHR '':'') url \<noteq> []"
    by (simp add: dropWhile_eq_Nil_conv)
  then obtain t where t: "dropWhile (\<lambda>c. c \<noteq> CHR '':'') url = CHR '':'' # t"
    using hd_dropWhile [of "\<lambda>c. c \<noteq> CHR '':''" url] by (cases "dropWhile (\<lambda>c. c \<noteq> CHR '':'') url") auto
  have url: "url = ?pre @ CHR '':'' # t"
    using takeWhile_dropWhile_id [of "\<lambda>c. c \<noteq> CHR '':''" url] t by simp
  have "rest = t"
    unfolding rest by (subst (2) url) simp
  with url have "url = (?pre @ '':'') @ rest" by simp
  moreover have "CHR ''?'' \<notin> set (?pre @ '':'')" "CHR ''#'' \<notin> set (?pre @ '':'')"
    using chars scheme_char_not_delim by (auto simp: list_all_iff)
  ultimately show ?thesis using that by blast
qed

lemma netloc_prefix:
  assumes "(if take 2 url1 = ''//'' then splitnetloc url1 else ([], url1)) = (nl, url2)"
  obtains p where "url1 = p @ url2" and "CHR ''?'' \<notin> set p" and "CHR ''#'' \<notin> set p"
proof (cases "take 2 url1 = ''//''")
  case False
  with assms have "url1 = [] @ url2" by simp
  then show ?thesis using that by force
next
  case True
  then have u: "url1 = ''//'' @ drop 2 url1"
    using append_take_drop_id [of 2 url1] by simp
  from True assms have nl: "nl = takeWhile (\<lambda>c. c \<notin> set ''/?#'') (drop 2 url1)"
    and r: "url2 = dropWhile (\<lambda>c. c \<notin> set ''/?#'') (drop 2 url1)"
    by (simp_all add: splitnetloc_def)
  have "drop 2 url1 = nl @ url2"
    by (simp add: nl r)
  with u have "url1 = (''//'' @ nl) @ url2" by simp
  moreover have "CHR ''?'' \<notin> set (''//'' @ nl)" "CHR ''#'' \<notin> set (''//'' @ nl)"
    by (auto simp: nl dest: set_takeWhileD)
  ultimately show ?thesis using that by blast
qed

lemma urlsplit_query:
  assumes "urlsplit u = Inr r"
  shows "query r = url_query (clean_url u)"
proof -
  obtain sch url1 where a: "split_scheme (clean_url u) = (sch, url1)"
    by (cases "split_scheme (clean_url u)")
  obtain nl url2 where b: "(if take 2 url1 = ''//'' then splitnetloc url1 else ([], url1)) = (nl, url2)"
    by (cases "(if take 2 url1 = ''//'' then splitnetloc url1 else ([], url1))")
  from assms a b have q: "query r = url_query url2"
    by (auto simp: urlsplit_def url_query_def split: if_splits prod.splits)
  obtain p1 where p1: "clean_url u = p1 @ url1" "CHR ''?'' \<notin> set p1" "CHR ''#'' \<notin> set p1"
    using a by (rule split_scheme_prefix)
  obtain p2 where p2: "url1 = p2 @ url2" "CHR ''?'' \<notin> set p2" "CHR ''#'' \<notin> set p2"
    using b by (rule netloc_prefix)
  show ?thesis
    by (simp add: q p1 p2 url_query_prefix)
qed





subsection \<open>The redirect URL\<close>











subsection \<open>The client id in requests\<close>

lemma api_post_snd:
  "snd (api_post url body s) = s\<lparr>world := snd (post (apiclient (self s)) url body (world s))\<rparr>"
  by (simp add: api_post_def split: prod.split)

lemma trade_code_snd:
  "snd (trade_code code cid csecret s) = snd (api_post ''/v1/token'' (trade_code_body code cid csecret (self s)) s)"
  by (simp add: trade_code_def split: prod.split sum.split option.split)

lemma authorize_code_snd:
  "snd (authorize_code assertion scope cid s)
     = snd (api_post ''/v1/authorization'' (authorize_code_body assertion scope cid (self s)) s)"
  by (simp add: authorize_code_def split: prod.split sum.split option.split)

lemma authorize_token_snd:
  "snd (authorize_token assertion scope cid s)
     = snd (api_post ''/v1/authorization'' (authorize_token_body assertion scope cid (self s)) s)"
  by (simp add: authorize_token_def split: prod.split sum.split option.split)


lemma body_client_id:
  "trade_code_body code cid csecret c ''client_id'' = Some (opt_json (resolve cid (client_id c)))"
  "authorize_code_body assertion scope cid c ''client_id'' = Some (opt_json (resolve cid (client_id c)))"
  "authorize_token_body assertion scope cid c ''client_id'' = Some (opt_json (resolve cid (client_id c)))"
  by (simp_all add: trade_code_body_def authorize_code_body_def authorize_token_body_def Let_def)


text \<open>
  C7, as stated, fails: on a client that has no \<open>client_id\<close>, and with none passed,
  \<open>trade_code\<close> does send its request, with \<open>client_id\<close> null in the body, and what comes
  back is the protocol error for the answer, not a caller error.
\<close>

theorem trade_code_without_client_id:
  "fst (trade_code ''c0de'' None None (client_state None None (answering ''https://s'' Map.empty)))
     = Inl (OutOfProtocolError ''access_token missing in OAuth response'')
   \<and> map (\<lambda>(u, b). (u, b ''client_id''))
         (world (snd (trade_code ''c0de'' None None (client_state None None (answering ''https://s'' Map.empty)))))
     = [(''/v1/token'', Some JNull)]"
  by (simp add: trade_code_def api_post_def client_state_def answering_def trade_code_body_def
        resolve_def opt_json_def)


text \<open>
  C7, amended. Each operation that sends a client id (\<open>trade_code\<close>, \<open>authorize_code\<close>,
  \<open>authorize_token\<close>) always hands its request to the transport; the \<open>client_id\<close> of the
  body is the per-call value, else the configured one, else null. No check of the client
  id stands before the request.
\<close>

theorem requests_carry_resolved_client_id:
  "snd (trade_code code cid csecret s)
     = s\<lparr>world := snd (post (apiclient (self s)) ''/v1/token''
                         (trade_code_body code cid csecret (self s)) (world s))\<rparr>
   \<and> snd (authorize_code assertion scope cid s)
     = s\<lparr>world := snd (post (apiclient (self s)) ''/v1/authorization''
                         (authorize_code_body assertion scope cid (self s)) (world s))\<rparr>
   \<and> snd (authorize_token assertion scope cid s)
     = s\<lparr>world := snd (post (apiclient (self s)) ''/v1/authorization''
                         (authorize_token_body assertion scope cid (self s)) (world s))\<rparr>
   \<and> trade_code_body code cid csecret (self s) ''client_id''
     = Some (case cid of Some x \<Rightarrow> JStr x
             | None \<Rightarrow> (case client_id (self s) of Some y \<Rightarrow> JStr y | None \<Rightarrow> JNull))
   \<and> authorize_code_body assertion scope cid (self s) ''client_id''
     = Some (case cid of Some x \<Rightarrow> JStr x
             | None \<Rightarrow> (case client_id (self s) of Some y \<Rightarrow> JStr y | None \<Rightarrow> JNull))
   \<and> authorize_token_body assertion scope cid (self s) ''client_id''
     = Some (case cid of Some x \<Rightarrow> JStr x
             | None \<Rightarrow> (case client_id (self s) of Some y \<Rightarrow> JStr y | None \<Rightarrow> JNull))"
  by (simp add: trade_code_snd authorize_code_snd authorize_token_snd api_post_snd body_client_id
        resolve_def opt_json_def split: option.split)







end
